theory Spec2Isabelle
  imports Main
begin

section \<open>The file server of setup.py\<close>

text \<open>
  The program is one script: it reads an optional port from the command line, changes
  its working directory to the script's own directory, opens a TCP server whose request
  handler prints the path of every GET request and then defers to the inherited
  file-serving handler, and runs until an exception ends the serve loop.

  Everything the script does is an effect on its environment, so the model threads
  a process state (the working directory and the trace of effects performed so far)
  through the functions of the script, and reads every decision the environment takes
  (the command line, what the operating system answers to the bind, what arrives at
  the listening socket) from a record \<open>world\<close>.
\<close>

subsection \<open>Paths and the working directory\<close>

text \<open>
  A directory is the list of its components below the root. A directory name given as
  text is resolved against the working directory the way the operating system does it
  at the moment the name is used: an initial slash starts at the root, empty components
  and \<open>.\<close> stay, \<open>..\<close> goes up. Symbolic links are not modelled.
\<close>

type_synonym path = "string list"

fun split_on :: "char \<Rightarrow> string \<Rightarrow> string list" where
  "split_on c [] = [[]]"
| "split_on c (x # xs) =
     (if x = c then [] # split_on c xs
      else (case split_on c xs of
              [] \<Rightarrow> [[x]]
            | y # ys \<Rightarrow> (x # y) # ys))"

definition walk :: "path \<Rightarrow> string \<Rightarrow> path" where
  "walk d name =
     (if name = [] \<or> name = ''.'' then d
      else if name = ''..'' then butlast d
      else d @ [name])"

definition is_absolute :: "string \<Rightarrow> bool" where
  "is_absolute s = (case s of [] \<Rightarrow> False | x # _ \<Rightarrow> x = CHR ''/'')"

definition resolve :: "path \<Rightarrow> string \<Rightarrow> path" where
  "resolve wd s = foldl walk (if is_absolute s then [] else wd) (split_on CHR ''/'' s)"

subsection \<open>Exceptions, effects, the environment\<close>

text \<open>
  The exceptions that can reach the script's \<open>try\<close> statements. \<open>OSError\<close> carries
  the text that \<open>str(e)\<close> gives; \<open>OverflowError\<close> is what the socket layer raises for
  a port outside 0..65535; \<open>OtherError\<close> stands for any further exception class.
\<close>

datatype exn =
    ValueError
  | OSError string
  | OverflowError
  | KeyboardInterrupt
  | OtherError string

text \<open>
  One effect per call that is visible outside the process. \<open>Stdout s\<close> and \<open>Stderr s\<close>
  are one \<open>print\<close> call each (the text without the final newline that \<open>print\<close> adds).
  \<open>Bind host port\<close> is the construction of \<open>TCPServer((host, port), Handler)\<close>.
  \<open>Inherited method root p\<close> is the call of the inherited
  \<open>SimpleHTTPRequestHandler\<close> method for a request of that method and path, serving
  from the directory \<open>root\<close>; what that method answers (status, headers, body) is the
  library's own business and is not part of the script. \<open>Unsupported method p\<close> is the
  answer the library gives by itself, without calling any handler method, to a request
  whose method the handler class has no \<open>do_\<close> method for. \<open>Close\<close> is the
  \<open>server_close\<close> that leaving the \<open>with\<close> block performs.
\<close>

datatype effect =
    Stdout string
  | Stderr string
  | Chdir path
  | Bind string int
  | Inherited string path string
  | Unsupported string string
  | Close

text \<open>
  What arrives while the server runs \<open>serve_forever\<close>: a request (method and path),
  or an exception raised inside the loop (an interrupt from the keyboard raises
  \<open>KeyboardInterrupt\<close>).
\<close>

datatype arrival =
    Request string string
  | Raises exn

record world =
  argv :: "string list"
  int_builtin :: "string \<Rightarrow> int option"
  caller_cwd :: path
  script_dir :: path
  os_bind :: "int \<Rightarrow> string option"
  arrivals :: "arrival list"

text \<open>
  \<open>argv\<close> is \<open>sys.argv\<close> (the script's name first). \<open>int_builtin\<close> is Python's
  \<open>int\<close> on a string, \<open>None\<close> where it raises \<open>ValueError\<close>. \<open>caller_cwd\<close> is the
  working directory the process starts in, \<open>script_dir\<close> is
  \<open>os.path.dirname(os.path.abspath(__file__))\<close>. \<open>os_bind port\<close> is the operating
  system's answer to binding and listening on the port: \<open>None\<close> for success,
  \<open>Some msg\<close> for an \<open>OSError\<close> with that text. \<open>arrivals\<close> is what reaches the serve
  loop, in order; when the list is used up nothing more ever arrives and the loop waits
  forever.
\<close>

record state =
  cwd :: path
  trace :: "effect list"

definition emit :: "effect \<Rightarrow> state \<Rightarrow> state" where
  "emit e s = s\<lparr>trace := trace s @ [e]\<rparr>"

definition os_chdir :: "path \<Rightarrow> state \<Rightarrow> state" where
  "os_chdir d s = (emit (Chdir d) s)\<lparr>cwd := d\<rparr>"

definition initial :: "world \<Rightarrow> state" where
  "initial w = \<lparr>cwd = caller_cwd w, trace = []\<rparr>"

subsection \<open>Formatting an integer, as an f-string does\<close>

definition digit_char :: "nat \<Rightarrow> char" where
  "digit_char d = ''0123456789'' ! d"

function nat_str :: "nat \<Rightarrow> string" where
  "nat_str n = (if n < 10 then [digit_char n] else nat_str (n div 10) @ [digit_char (n mod 10)])"
  by pat_completeness auto
termination
  by (relation "measure id") auto

declare nat_str.simps [simp del]

definition int_str :: "int \<Rightarrow> string" where
  "int_str i = (if i < 0 then CHR ''-'' # nat_str (nat (- i)) else nat_str (nat i))"

subsection \<open>The script\<close>

definition DEFAULT_PORT :: int where
  "DEFAULT_PORT = 8000"

definition DEFAULT_DIRECTORY :: string where
  "DEFAULT_DIRECTORY = ''.''"

text \<open>
  \<open>Handler.__init__\<close> hands the global \<open>DIRECTORY\<close> to the inherited handler as its
  directory, which the inherited handler joins with the request path when it opens a
  file; the name is therefore resolved against the working directory of the process at
  the time of the request.
\<close>

definition handler_root :: "string \<Rightarrow> state \<Rightarrow> path" where
  "handler_root DIRECTORY s = resolve (cwd s) DIRECTORY"

text \<open>\<open>Handler.do_GET\<close>: the print, then \<open>super().do_GET()\<close>.\<close>

definition do_GET :: "string \<Rightarrow> string \<Rightarrow> state \<Rightarrow> state" where
  "do_GET DIRECTORY p s =
     (let s1 = emit (Stdout (''Serving file: '' @ p)) s
      in emit (Inherited ''GET'' (handler_root DIRECTORY s1) p) s1)"

text \<open>
  The dispatch on the request method, which looks for a method \<open>do_\<close> plus the request
  method in the handler class: \<open>do_GET\<close> is the one \<open>Handler\<close> overrides, \<open>do_HEAD\<close> is
  the only other one and is inherited as it is, and a request with any other method is
  answered by the library without a handler method being called.
\<close>

definition handle_request :: "string \<Rightarrow> string \<Rightarrow> string \<Rightarrow> state \<Rightarrow> state" where
  "handle_request DIRECTORY m p s =
     (if m = ''GET'' then do_GET DIRECTORY p s
      else if m = ''HEAD'' then emit (Inherited m (handler_root DIRECTORY s) p) s
      else emit (Unsupported m p) s)"

text \<open>
  \<open>httpd.serve_forever()\<close>. The loop returns only by an exception: the result is
  \<open>Some e\<close> when \<open>e\<close> leaves the loop and \<open>None\<close> when the loop never returns.
\<close>

fun serve_forever :: "string \<Rightarrow> arrival list \<Rightarrow> state \<Rightarrow> state \<times> exn option" where
  "serve_forever DIRECTORY [] s = (s, None)"
| "serve_forever DIRECTORY (Request m p # rest) s =
     serve_forever DIRECTORY rest (handle_request DIRECTORY m p s)"
| "serve_forever DIRECTORY (Raises e # rest) s = (s, Some e)"

text \<open>
  \<open>socketserver.TCPServer((host, port), Handler)\<close>: a port outside 0..65535 is
  refused with \<open>OverflowError\<close> before the operating system is asked; otherwise the
  operating system decides.
\<close>

definition TCPServer :: "world \<Rightarrow> string \<Rightarrow> int \<Rightarrow> state \<Rightarrow> state \<times> exn option" where
  "TCPServer w host port s =
     (let s1 = emit (Bind host port) s
      in if port < 0 \<or> 65535 < port then (s1, Some OverflowError)
         else (case os_bind w port of
                 Some msg \<Rightarrow> (s1, Some (OSError msg))
               | None \<Rightarrow> (s1, None)))"

text \<open>How a call ends: it returns, an exception leaves it, or it never returns.\<close>

datatype outcome = Returned | Uncaught exn | Never_returns

text \<open>The two \<open>except\<close> clauses of \<open>run_server\<close>, in the order of the source.\<close>

definition except_clauses :: "int \<Rightarrow> exn \<Rightarrow> state \<Rightarrow> state \<times> outcome" where
  "except_clauses port e s =
     (case e of
        OSError msg \<Rightarrow>
          (emit (Stderr (''Details: '' @ msg))
             (emit (Stderr (''Error: Could not start the server on port '' @ int_str port
                            @ ''. The port might be in use.'')) s),
           Returned)
      | KeyboardInterrupt \<Rightarrow> (emit (Stdout (CHR 0x0A # ''Server stopped.'')) s, Returned)
      | _ \<Rightarrow> (s, Uncaught e))"

text \<open>
  \<open>run_server(port, directory)\<close>. The handler reads the global \<open>DIRECTORY\<close>, which is
  the first argument here; \<open>directory\<close> is the function's own parameter.
\<close>

definition run_server :: "world \<Rightarrow> string \<Rightarrow> int \<Rightarrow> string \<Rightarrow> state \<Rightarrow> state \<times> outcome" where
  "run_server w DIRECTORY port directory s =
     (let s1 = os_chdir (script_dir w) s
      in case TCPServer w '''' port s1 of
           (s2, Some e) \<Rightarrow> except_clauses port e s2
         | (s2, None) \<Rightarrow>
             (let s3 = emit (Stdout (''Serving files from directory '' @ [CHR 0x27] @ directory
                                     @ [CHR 0x27])) s2;
                  s4 = emit (Stdout (''Server started at http://localhost:'' @ int_str port)) s3;
                  s5 = emit (Stdout ''Press Ctrl+C to stop the server.'') s4
              in case serve_forever DIRECTORY (arrivals w) s5 of
                   (s6, None) \<Rightarrow> (s6, Never_returns)
                 | (s6, Some e) \<Rightarrow> except_clauses port e (emit Close s6)))"

text \<open>The block under \<open>if __name__ == "__main__"\<close>: the port the script settles on.\<close>

definition parse_port :: "world \<Rightarrow> state \<Rightarrow> int \<times> state" where
  "parse_port w s =
     (if length (argv w) > 1 then
        (case int_builtin w (argv w ! 1) of
           Some n \<Rightarrow> (n, s)
         | None \<Rightarrow>
             (DEFAULT_PORT,
              emit (Stderr ''Invalid port number provided. Using default port 8000.'') s))
      else (DEFAULT_PORT, s))"

definition main :: "world \<Rightarrow> state \<times> outcome" where
  "main w =
     (let DIRECTORY = DEFAULT_DIRECTORY;
          (PORT, s1) = parse_port w (initial w)
      in run_server w DIRECTORY PORT DIRECTORY s1)"

text \<open>
  The same block with the value of \<open>DEFAULT_DIRECTORY\<close> as a parameter, to say what
  the run depends on that value for; \<open>main\<close> is this at the value the script has.
\<close>

definition main_with :: "string \<Rightarrow> world \<Rightarrow> state \<times> outcome" where
  "main_with default_directory w =
     (let DIRECTORY = default_directory;
          (PORT, s1) = parse_port w (initial w)
      in run_server w DIRECTORY PORT DIRECTORY s1)"

text \<open>
  The exit status of the process: 0 when the script runs to its end, 1 when an
  exception is not caught, none while the process is still serving.
\<close>

definition exit_code :: "outcome \<Rightarrow> nat option" where
  "exit_code r = (case r of Returned \<Rightarrow> Some 0 | Uncaught e \<Rightarrow> Some 1 | Never_returns \<Rightarrow> None)"

subsection \<open>What one request adds to the trace\<close>

text \<open>
  The effects of handling one request, given the working directory at that moment;
  \<open>handle_request\<close> is shown below to append exactly these.
\<close>

definition request_effects :: "string \<Rightarrow> path \<Rightarrow> string \<Rightarrow> string \<Rightarrow> effect list" where
  "request_effects DIRECTORY wd m p =
     (if m = ''GET'' then
        [Stdout (''Serving file: '' @ p), Inherited m (resolve wd DIRECTORY) p]
      else if m = ''HEAD'' then [Inherited m (resolve wd DIRECTORY) p]
      else [Unsupported m p])"

subsection \<open>Concrete environments\<close>

text \<open>
  An instance of \<open>int_builtin\<close> for the concrete runs below: Python's \<open>int\<close> on
  ASCII text in base 10. Surrounding whitespace (tab, line feed, vertical tab, form
  feed, carriage return, space) is stripped, one sign is allowed, the digits may be
  separated by single underscores, and there are at most 4300 digits, the
  interpreter's default limit; anything else is a \<open>ValueError\<close>. Text outside ASCII
  is not covered by this instance; the properties below hold for every
  \<open>int_builtin\<close>.
\<close>

definition is_space :: "char \<Rightarrow> bool" where
  "is_space c = (of_char c \<in> set [9, 10, 11, 12, 13, 32 :: nat])"

definition is_digit :: "char \<Rightarrow> bool" where
  "is_digit c = (48 \<le> (of_char c :: nat) \<and> (of_char c :: nat) \<le> 57)"

definition strip :: "string \<Rightarrow> string" where
  "strip s = rev (dropWhile is_space (rev (dropWhile is_space s)))"

fun parse_digits :: "string \<Rightarrow> nat \<Rightarrow> nat option" where
  "parse_digits [] acc = None"
| "parse_digits (c # cs) acc =
     (if is_digit c then
        (let acc' = 10 * acc + (of_char c - 48)
         in case cs of
              [] \<Rightarrow> Some acc'
            | d # ds \<Rightarrow> if d = CHR ''_'' then parse_digits ds acc' else parse_digits cs acc')
      else None)"

definition ascii_int :: "string \<Rightarrow> int option" where
  "ascii_int s =
     (case strip s of
        [] \<Rightarrow> None
      | c # cs \<Rightarrow>
          if 4300 < length (filter is_digit (c # cs)) then None
          else if c = CHR ''-'' then map_option (\<lambda>n. - int n) (parse_digits cs 0)
          else if c = CHR ''+'' then map_option int (parse_digits cs 0)
          else map_option int (parse_digits (c # cs) 0))"

text \<open>
  A run is fixed by the arguments after the script's name, the operating system's
  answer to the bind, and what arrives at the server. The script lives in
  \<open>/opt/app\<close> and is started from \<open>/home/user\<close>.
\<close>

definition sample_world :: "string list \<Rightarrow> (int \<Rightarrow> string option) \<Rightarrow> arrival list \<Rightarrow> world" where
  "sample_world args bind arrs =
     \<lparr>argv = ''setup.py'' # args, int_builtin = ascii_int,
      caller_cwd = [''home'', ''user''], script_dir = [''opt'', ''app''],
      os_bind = bind, arrivals = arrs\<rparr>"

definition port_free :: "int \<Rightarrow> string option" where
  "port_free p = None"

definition port_in_use :: "int \<Rightarrow> string option" where
  "port_in_use p = Some ''[Errno 98] Address already in use''"

definition sample_arrivals :: "arrival list" where
  "sample_arrivals =
     [Request ''GET'' ''/README.txt'', Request ''HEAD'' ''/missing'',
      Raises KeyboardInterrupt, Request ''GET'' ''/late'']"

text \<open>
  An effect that leaves the working directory and the listener alone, and that, when it
  is a call of the inherited handler, serves from \<open>root\<close>.
\<close>

definition harmless :: "path \<Rightarrow> effect \<Rightarrow> bool" where
  "harmless root e =
     (case e of Inherited m r p \<Rightarrow> r = root | Chdir d \<Rightarrow> False | Bind h q \<Rightarrow> False | _ \<Rightarrow> True)"

section \<open>Properties of the script\<close>

subsection \<open>The handler and the serve loop\<close>

lemma resolve_dot: "resolve wd ''.'' = wd"
  by (simp add: resolve_def is_absolute_def walk_def)

lemma handle_request_eq:
  "handle_request D m p s = s\<lparr>trace := trace s @ request_effects D (cwd s) m p\<rparr>"
  by (simp add: handle_request_def do_GET_def Let_def emit_def handler_root_def
      request_effects_def)

lemma serve_forever_from:
  "trace (fst (serve_forever D as (s\<lparr>trace := t\<rparr>))) =
     t @ trace (fst (serve_forever D as (s\<lparr>trace := []\<rparr>)))"
proof (induction as arbitrary: t)
  case Nil
  show ?case by simp
next
  case (Cons a rest)
  show ?case
  proof (cases a)
    case (Request m p)
    have "trace (fst (serve_forever D (a # rest) (s\<lparr>trace := t\<rparr>))) =
          trace (fst (serve_forever D rest (s\<lparr>trace := t @ request_effects D (cwd s) m p\<rparr>)))"
      by (simp add: Request handle_request_eq)
    also have "\<dots> = (t @ request_effects D (cwd s) m p)
                     @ trace (fst (serve_forever D rest (s\<lparr>trace := []\<rparr>)))"
      by (rule Cons.IH)
    also have "\<dots> = t @ trace (fst (serve_forever D rest
                                    (s\<lparr>trace := request_effects D (cwd s) m p\<rparr>)))"
      by (simp add: Cons.IH [of "request_effects D (cwd s) m p"])
    also have "\<dots> = t @ trace (fst (serve_forever D (a # rest) (s\<lparr>trace := []\<rparr>)))"
      by (simp add: Request handle_request_eq)
    finally show ?thesis .
  next
    case (Raises e)
    then show ?thesis by simp
  qed
qed

lemma serve_forever_cwd: "cwd (fst (serve_forever D as s)) = cwd s"
  by (induction D as s rule: serve_forever.induct) (simp_all add: handle_request_eq)

lemma serve_forever_snd:
  "snd (serve_forever D as (s\<lparr>trace := t\<rparr>)) = snd (serve_forever D as s)"
proof (induction as arbitrary: s t)
  case Nil
  show ?case by simp
next
  case (Cons a rest)
  show ?case
  proof (cases a)
    case (Request m p)
    have "snd (serve_forever D rest (s\<lparr>trace := t @ request_effects D (cwd s) m p\<rparr>)) =
          snd (serve_forever D rest s)"
      by (rule Cons.IH)
    moreover have "snd (serve_forever D rest (s\<lparr>trace := trace s @ request_effects D (cwd s) m p\<rparr>)) =
          snd (serve_forever D rest s)"
      by (rule Cons.IH)
    ultimately show ?thesis by (simp add: Request handle_request_eq)
  next
    case (Raises e)
    then show ?thesis by simp
  qed
qed

lemma serve_forever_effects:
  "e \<in> set (trace (fst (serve_forever D as (s\<lparr>trace := []\<rparr>)))) \<Longrightarrow>
     (\<exists>p. e = Stdout (''Serving file: '' @ p)) \<or> (\<exists>m p. e = Inherited m (resolve (cwd s) D) p)
     \<or> (\<exists>m p. e = Unsupported m p)"
proof (induction as)
  case Nil
  then show ?case by simp
next
  case (Cons a rest)
  show ?case
  proof (cases a)
    case (Request m p)
    have "trace (fst (serve_forever D (a # rest) (s\<lparr>trace := []\<rparr>))) =
          request_effects D (cwd s) m p @ trace (fst (serve_forever D rest (s\<lparr>trace := []\<rparr>)))"
      using serve_forever_from [where as = rest and s = s and t = "request_effects D (cwd s) m p"]
      by (simp add: Request handle_request_eq)
    with Cons.prems have "e \<in> set (request_effects D (cwd s) m p) \<or>
        e \<in> set (trace (fst (serve_forever D rest (s\<lparr>trace := []\<rparr>))))"
      by simp
    then show ?thesis
    proof
      assume "e \<in> set (request_effects D (cwd s) m p)"
      then show ?thesis by (auto simp: request_effects_def split: if_splits)
    next
      assume "e \<in> set (trace (fst (serve_forever D rest (s\<lparr>trace := []\<rparr>))))"
      then show ?thesis by (rule Cons.IH)
    qed
  next
    case (Raises x)
    with Cons.prems show ?thesis by simp
  qed
qed

lemma serve_forever_until:
  "serve_forever D (map (\<lambda>(m, p). Request m p) reqs @ Raises e # later) s =
     (foldl (\<lambda>s (m, p). handle_request D m p s) s reqs, Some e)"
  by (induction reqs arbitrary: s) (simp_all add: case_prod_unfold)

lemma serve_forever_GETs:
  "trace (fst (serve_forever D (map (Request ''GET'') ps) s)) =
     trace s @ concat (map (\<lambda>p. [Stdout (''Serving file: '' @ p),
                                  Inherited ''GET'' (resolve (cwd s) D) p]) ps)"
proof (induction ps arbitrary: s)
  case Nil
  show ?case by simp
next
  case (Cons p ps)
  show ?case
    by (simp add: Cons.IH handle_request_eq request_effects_def)
qed

subsection \<open>The server and the whole run\<close>

lemma harmless_Inherited: "harmless root (Inherited m r p) \<Longrightarrow> r = root"
  by (simp add: harmless_def)

lemma harmless_not_Chdir: "\<not> harmless root (Chdir d)"
  by (simp add: harmless_def)

lemma harmless_not_Bind: "\<not> harmless root (Bind h q)"
  by (simp add: harmless_def)

lemma except_clauses_shape:
  "\<exists>x. trace (fst (except_clauses port e s)) = trace s @ x \<and> (\<forall>y \<in> set x. harmless root y)"
  by (cases e) (simp_all add: except_clauses_def emit_def harmless_def)

lemma except_clauses_cwd: "cwd (fst (except_clauses port e s)) = cwd s"
  by (cases e) (simp_all add: except_clauses_def emit_def)

lemma serve_forever_harmless:
  "y \<in> set (trace (fst (serve_forever D as (s\<lparr>trace := []\<rparr>)))) \<Longrightarrow>
     harmless (resolve (cwd s) D) y"
  by (drule serve_forever_effects) (auto simp: harmless_def)

lemma run_server_refused:
  assumes "port < 0 \<or> 65535 < port"
  shows "run_server w D port dir s =
           (s\<lparr>cwd := script_dir w, trace := trace s @ [Chdir (script_dir w), Bind [] port]\<rparr>,
            Uncaught OverflowError)"
  using assms
  by (auto simp add: run_server_def TCPServer_def os_chdir_def emit_def except_clauses_def Let_def)

lemma run_server_bind_error:
  assumes "0 \<le> port" and "port \<le> 65535" and "os_bind w port = Some msg"
  shows "run_server w D port dir s =
           (s\<lparr>cwd := script_dir w,
              trace := trace s @
                [Chdir (script_dir w), Bind [] port,
                 Stderr (''Error: Could not start the server on port '' @ int_str port
                         @ ''. The port might be in use.''),
                 Stderr (''Details: '' @ msg)]\<rparr>,
            Returned)"
  using assms
  by (simp add: run_server_def TCPServer_def os_chdir_def emit_def except_clauses_def Let_def)

lemma run_server_listening:
  assumes "0 \<le> port" and "port \<le> 65535" and "os_bind w port = None"
  shows "run_server w D port dir s =
           (case serve_forever D (arrivals w)
                   (s\<lparr>cwd := script_dir w,
                      trace := trace s @
                        [Chdir (script_dir w), Bind [] port,
                         Stdout (''Serving files from directory '' @ [CHR 0x27] @ dir @ [CHR 0x27]),
                         Stdout (''Server started at http://localhost:'' @ int_str port),
                         Stdout ''Press Ctrl+C to stop the server.'']\<rparr>) of
              (s6, None) \<Rightarrow> (s6, Never_returns)
            | (s6, Some e) \<Rightarrow> except_clauses port e (emit Close s6))"
  using assms
  by (simp add: run_server_def TCPServer_def os_chdir_def emit_def Let_def
      split: prod.splits option.splits)

lemma run_server_cwd: "cwd (fst (run_server w D port dir s)) = script_dir w"
proof (cases "port < 0 \<or> 65535 < port")
  case True
  then show ?thesis by (simp add: run_server_refused)
next
  case range: False
  show ?thesis
  proof (cases "os_bind w port")
    case (Some msg)
    with range show ?thesis by (simp add: run_server_bind_error)
  next
    case None
    let ?s5 = "s\<lparr>cwd := script_dir w,
                  trace := trace s @
                    [Chdir (script_dir w), Bind [] port,
                     Stdout (''Serving files from directory '' @ [CHR 0x27] @ dir @ [CHR 0x27]),
                     Stdout (''Server started at http://localhost:'' @ int_str port),
                     Stdout ''Press Ctrl+C to stop the server.'']\<rparr>"
    have c: "cwd (fst (serve_forever D (arrivals w) ?s5)) = script_dir w"
      by (simp add: serve_forever_cwd)
    obtain s6 r where sf: "serve_forever D (arrivals w) ?s5 = (s6, r)"
      by (cases "serve_forever D (arrivals w) ?s5")
    with c have "cwd s6 = script_dir w" by simp
    with range None sf show ?thesis
      by (cases r) (simp_all add: run_server_listening except_clauses_cwd emit_def)
  qed
qed

lemma run_server_shape:
  "\<exists>rest. trace (fst (run_server w D port dir s)) =
            trace s @ [Chdir (script_dir w), Bind [] port] @ rest
          \<and> (\<forall>y \<in> set rest. harmless (resolve (script_dir w) D) y)"
proof (cases "port < 0 \<or> 65535 < port")
  case True
  then show ?thesis by (simp add: run_server_refused)
next
  case range: False
  show ?thesis
  proof (cases "os_bind w port")
    case (Some msg)
    with range show ?thesis by (simp add: run_server_bind_error harmless_def)
  next
    case None
    let ?banner = "[Stdout (''Serving files from directory '' @ [CHR 0x27] @ dir @ [CHR 0x27]),
                     Stdout (''Server started at http://localhost:'' @ int_str port),
                     Stdout ''Press Ctrl+C to stop the server.'']"
    let ?t5 = "trace s @ [Chdir (script_dir w), Bind [] port] @ ?banner"
    let ?s5 = "s\<lparr>cwd := script_dir w, trace := ?t5\<rparr>"
    let ?loop = "trace (fst (serve_forever D (arrivals w) (?s5\<lparr>trace := []\<rparr>)))"
    have run: "run_server w D port dir s =
           (case serve_forever D (arrivals w) ?s5 of
              (s6, None) \<Rightarrow> (s6, Never_returns)
            | (s6, Some e) \<Rightarrow> except_clauses port e (emit Close s6))"
      using range None run_server_listening [of port w D dir s] by simp
    have tr: "trace (fst (serve_forever D (arrivals w) ?s5)) = ?t5 @ ?loop"
      using serve_forever_from [where s = ?s5 and t = ?t5 and D = D and as = "arrivals w"]
      by simp
    have loop: "\<forall>y \<in> set ?loop. harmless (resolve (script_dir w) D) y"
      using serve_forever_harmless [where s = ?s5 and D = D and as = "arrivals w"] by simp
    have banner: "\<forall>y \<in> set ?banner. harmless (resolve (script_dir w) D) y"
      by (simp add: harmless_def)
    obtain s6 r where sf: "serve_forever D (arrivals w) ?s5 = (s6, r)"
      by (cases "serve_forever D (arrivals w) ?s5")
    with tr have t6: "trace s6 = ?t5 @ ?loop" by simp
    show ?thesis
    proof (cases r)
      case None
      with run sf t6 have "trace (fst (run_server w D port dir s)) =
          trace s @ [Chdir (script_dir w), Bind [] port] @ (?banner @ ?loop)"
        by simp
      moreover from banner loop have "\<forall>y \<in> set (?banner @ ?loop). harmless (resolve (script_dir w) D) y"
        by auto
      ultimately show ?thesis by blast
    next
      case (Some e)
      obtain x where x: "trace (fst (except_clauses port e (emit Close s6))) =
                           trace (emit Close s6) @ x"
        and hx: "\<forall>y \<in> set x. harmless (resolve (script_dir w) D) y"
        using except_clauses_shape by blast
      from run sf Some x t6 have "trace (fst (run_server w D port dir s)) =
          trace s @ [Chdir (script_dir w), Bind [] port] @ (?banner @ ?loop @ [Close] @ x)"
        by (simp add: emit_def)
      moreover from banner loop hx
      have "\<forall>y \<in> set (?banner @ ?loop @ [Close] @ x). harmless (resolve (script_dir w) D) y"
        by (auto simp: harmless_def)
      ultimately show ?thesis by blast
    qed
  qed
qed

lemma run_server_banner:
  assumes "0 \<le> port" and "port \<le> 65535" and "os_bind w port = None"
  shows "\<exists>rest. trace (fst (run_server w D port dir s)) =
           trace s @
           [Chdir (script_dir w), Bind [] port,
            Stdout (''Serving files from directory '' @ [CHR 0x27] @ dir @ [CHR 0x27]),
            Stdout (''Server started at http://localhost:'' @ int_str port),
            Stdout ''Press Ctrl+C to stop the server.''] @ rest"
proof -
  let ?t5 = "trace s @
           [Chdir (script_dir w), Bind [] port,
            Stdout (''Serving files from directory '' @ [CHR 0x27] @ dir @ [CHR 0x27]),
            Stdout (''Server started at http://localhost:'' @ int_str port),
            Stdout ''Press Ctrl+C to stop the server.'']"
  let ?s5 = "s\<lparr>cwd := script_dir w, trace := ?t5\<rparr>"
  let ?loop = "trace (fst (serve_forever D (arrivals w) (?s5\<lparr>trace := []\<rparr>)))"
  have run: "run_server w D port dir s =
           (case serve_forever D (arrivals w) ?s5 of
              (s6, None) \<Rightarrow> (s6, Never_returns)
            | (s6, Some e) \<Rightarrow> except_clauses port e (emit Close s6))"
    using assms by (rule run_server_listening)
  have tr: "trace (fst (serve_forever D (arrivals w) ?s5)) = ?t5 @ ?loop"
    using serve_forever_from [where s = ?s5 and t = ?t5 and D = D and as = "arrivals w"]
    by simp
  obtain s6 r where sf: "serve_forever D (arrivals w) ?s5 = (s6, r)"
    by (cases "serve_forever D (arrivals w) ?s5")
  with tr have t6: "trace s6 = ?t5 @ ?loop" by simp
  show ?thesis
  proof (cases r)
    case None
    with run sf t6 show ?thesis by simp
  next
    case (Some e)
    obtain x where "trace (fst (except_clauses port e (emit Close s6))) =
                      trace (emit Close s6) @ x"
      using except_clauses_shape by blast
    with run sf Some t6 show ?thesis by (simp add: emit_def)
  qed
qed

lemma run_server_ignores_cwd:
  "run_server w D port dir (s\<lparr>cwd := c\<rparr>) = run_server w D port dir s"
  by (simp add: run_server_def os_chdir_def emit_def)

lemma run_server_ignores_caller_cwd:
  "run_server (w\<lparr>caller_cwd := c\<rparr>) D port dir s = run_server w D port dir s"
  by (simp add: run_server_def TCPServer_def Let_def)

lemma parse_port_cwd: "cwd (snd (parse_port w s)) = cwd s"
  by (simp add: parse_port_def emit_def split: option.splits)

lemma parse_port_trace:
  "trace (snd (parse_port w s)) = trace s \<or>
   trace (snd (parse_port w s)) =
     trace s @ [Stderr ''Invalid port number provided. Using default port 8000.'']"
  by (simp add: parse_port_def emit_def split: option.splits)

lemma parse_port_ignores_cwd:
  "parse_port (w\<lparr>caller_cwd := c\<rparr>) (s\<lparr>cwd := c'\<rparr>) =
     (fst (parse_port w s), (snd (parse_port w s))\<lparr>cwd := c'\<rparr>)"
  by (simp add: parse_port_def emit_def split: option.splits)

lemma parse_port_ignores_arrivals:
  "parse_port (w\<lparr>arrivals := a\<rparr>) s = parse_port w s"
  by (simp add: parse_port_def)

lemma main_eq:
  "main w = run_server w ''.'' (fst (parse_port w (initial w))) ''.''
              (snd (parse_port w (initial w)))"
  by (simp add: main_def DEFAULT_DIRECTORY_def Let_def case_prod_unfold)

lemma main_ignores_caller_cwd: "main (w\<lparr>caller_cwd := c\<rparr>) = main w"
proof -
  have i: "initial (w\<lparr>caller_cwd := c\<rparr>) = (initial w)\<lparr>cwd := c\<rparr>"
    by (simp add: initial_def)
  show ?thesis
    by (simp only: main_eq i parse_port_ignores_cwd fst_conv snd_conv
        run_server_ignores_cwd run_server_ignores_caller_cwd)
qed

lemma main_serves_only_when_listening:
  assumes "Inherited m root p \<in> set (trace (fst (main w)))"
  shows "0 \<le> fst (parse_port w (initial w)) \<and> fst (parse_port w (initial w)) \<le> 65535
         \<and> os_bind w (fst (parse_port w (initial w))) = None"
proof -
  let ?port = "fst (parse_port w (initial w))"
  let ?s0 = "snd (parse_port w (initial w))"
  have s0: "Inherited m root p \<notin> set (trace ?s0)"
    using parse_port_trace [where w = w and s = "initial w"] by (auto simp: initial_def)
  have range: "\<not> (?port < 0 \<or> 65535 < ?port)"
  proof
    assume "?port < 0 \<or> 65535 < ?port"
    then have "trace (fst (main w)) = trace ?s0 @ [Chdir (script_dir w), Bind [] ?port]"
      by (simp add: main_eq run_server_refused)
    with assms s0 show False by simp
  qed
  have "os_bind w ?port = None"
  proof (cases "os_bind w ?port")
    case None
    then show ?thesis .
  next
    case (Some msg)
    with range have "trace (fst (main w)) =
        trace ?s0 @ [Chdir (script_dir w), Bind [] ?port,
                 Stderr (''Error: Could not start the server on port '' @ int_str ?port
                         @ ''. The port might be in use.''),
                 Stderr (''Details: '' @ msg)]"
      by (simp add: main_eq run_server_bind_error)
    with assms s0 show ?thesis by simp
  qed
  with range show ?thesis by simp
qed

lemma main_with_eq:
  "main_with D w = run_server w D (fst (parse_port w (initial w))) D
                     (snd (parse_port w (initial w)))"
  by (simp add: main_with_def Let_def case_prod_unfold)

lemma main_is_main_with: "main w = main_with DEFAULT_DIRECTORY w"
  by (simp add: main_def main_with_def)

lemma main_with_ignores_caller_cwd: "main_with D (w\<lparr>caller_cwd := c\<rparr>) = main_with D w"
proof -
  have i: "initial (w\<lparr>caller_cwd := c\<rparr>) = (initial w)\<lparr>cwd := c\<rparr>"
    by (simp add: initial_def)
  show ?thesis
    by (simp only: main_with_eq i parse_port_ignores_cwd fst_conv snd_conv
        run_server_ignores_cwd run_server_ignores_caller_cwd)
qed

lemma main_with_roots:
  assumes "Inherited m root p \<in> set (trace (fst (main_with D w)))"
  shows "root = resolve (script_dir w) D"
proof -
  let ?s0 = "snd (parse_port w (initial w))"
  obtain rest where
    t: "trace (fst (main_with D w)) =
          trace ?s0 @ [Chdir (script_dir w), Bind [] (fst (parse_port w (initial w)))] @ rest"
    and g: "\<forall>y \<in> set rest. harmless (resolve (script_dir w) D) y"
    using run_server_shape [where w = w and D = D and dir = D and s = ?s0
        and port = "fst (parse_port w (initial w))"]
    by (auto simp: main_with_eq)
  have "Inherited m root p \<notin> set (trace ?s0)"
    using parse_port_trace [where w = w and s = "initial w"] by (auto simp: initial_def)
  with assms t have "Inherited m root p \<in> set rest" by auto
  with g have "harmless (resolve (script_dir w) D) (Inherited m root p)" by blast
  then show ?thesis by (rule harmless_Inherited)
qed

subsection \<open>Concrete runs\<close>

lemma sample_fields:
  "argv (sample_world args bind arrs) = ''setup.py'' # args"
  "int_builtin (sample_world args bind arrs) = ascii_int"
  "caller_cwd (sample_world args bind arrs) = [''home'', ''user'']"
  "script_dir (sample_world args bind arrs) = [''opt'', ''app'']"
  "os_bind (sample_world args bind arrs) = bind"
  "arrivals (sample_world args bind arrs) = arrs"
  by (simp_all add: sample_world_def)

lemma ascii_int_9090: "ascii_int ''9090'' = Some 9090"
  by (simp add: ascii_int_def strip_def is_space_def is_digit_def)

lemma ascii_int_70000: "ascii_int ''70000'' = Some 70000"
  by (simp add: ascii_int_def strip_def is_space_def is_digit_def)

lemma ascii_int_abc: "ascii_int ''abc'' = None"
  by (simp add: ascii_int_def strip_def is_space_def is_digit_def)

lemma int_str_9090: "int_str 9090 = ''9090''"
  by (simp add: int_str_def nat_str.simps digit_char_def)

lemma int_str_8000: "int_str 8000 = ''8000''"
  by (simp add: int_str_def nat_str.simps digit_char_def)

lemma parse_port_9090:
  "parse_port (sample_world [''9090''] bind arrs) s = (9090, s)"
  by (simp add: parse_port_def sample_world_def ascii_int_9090)

lemma parse_port_70000:
  "parse_port (sample_world [''70000''] bind arrs) s = (70000, s)"
  by (simp add: parse_port_def sample_world_def ascii_int_70000)

lemma parse_port_abc:
  "parse_port (sample_world [''abc''] bind arrs) s =
     (8000, emit (Stderr ''Invalid port number provided. Using default port 8000.'') s)"
  by (simp add: parse_port_def sample_world_def ascii_int_abc DEFAULT_PORT_def)

lemma parse_port_no_argument:
  "parse_port (sample_world [] bind arrs) s = (8000, s)"
  by (simp add: parse_port_def sample_world_def DEFAULT_PORT_def)

lemma sample_9090:
  "main (sample_world [''9090''] port_free sample_arrivals) =
     (\<lparr>cwd = [''opt'', ''app''],
       trace =
         [Chdir [''opt'', ''app''], Bind '''' 9090,
          Stdout (''Serving files from directory '' @ [CHR 0x27] @ ''.'' @ [CHR 0x27]),
          Stdout ''Server started at http://localhost:9090'',
          Stdout ''Press Ctrl+C to stop the server.'',
          Stdout ''Serving file: /README.txt'',
          Inherited ''GET'' [''opt'', ''app''] ''/README.txt'',
          Inherited ''HEAD'' [''opt'', ''app''] ''/missing'',
          Close,
          Stdout (CHR 0x0A # ''Server stopped.'')]\<rparr>,
      Returned)"
proof -
  let ?w = "sample_world [''9090''] port_free sample_arrivals"
  have "main ?w = run_server ?w ''.'' 9090 ''.'' (initial ?w)"
    by (simp add: main_eq parse_port_9090)
  then show ?thesis
    by (simp add: run_server_def TCPServer_def os_chdir_def emit_def Let_def
        sample_world_def port_free_def sample_arrivals_def handle_request_eq request_effects_def
        except_clauses_def int_str_9090 resolve_dot initial_def)
qed

lemma sample_no_argument:
  "main (sample_world [] port_free sample_arrivals) =
     (\<lparr>cwd = [''opt'', ''app''],
       trace =
         [Chdir [''opt'', ''app''], Bind '''' 8000,
          Stdout (''Serving files from directory '' @ [CHR 0x27] @ ''.'' @ [CHR 0x27]),
          Stdout ''Server started at http://localhost:8000'',
          Stdout ''Press Ctrl+C to stop the server.'',
          Stdout ''Serving file: /README.txt'',
          Inherited ''GET'' [''opt'', ''app''] ''/README.txt'',
          Inherited ''HEAD'' [''opt'', ''app''] ''/missing'',
          Close,
          Stdout (CHR 0x0A # ''Server stopped.'')]\<rparr>,
      Returned)"
proof -
  let ?w = "sample_world [] port_free sample_arrivals"
  have "main ?w = run_server ?w ''.'' 8000 ''.'' (initial ?w)"
    by (simp add: main_eq parse_port_no_argument)
  then show ?thesis
    by (simp add: run_server_def TCPServer_def os_chdir_def emit_def Let_def
        sample_world_def port_free_def sample_arrivals_def handle_request_eq request_effects_def
        except_clauses_def int_str_8000 resolve_dot initial_def)
qed

lemma sample_other_directory:
  "D = ''/srv'' \<or> D = ''..'' \<Longrightarrow>
   trace (fst (main_with D (sample_world [''9090''] port_free sample_arrivals))) =
     [Chdir [''opt'', ''app''], Bind '''' 9090,
      Stdout (''Serving files from directory '' @ [CHR 0x27] @ D @ [CHR 0x27]),
      Stdout ''Server started at http://localhost:9090'',
      Stdout ''Press Ctrl+C to stop the server.'',
      Stdout ''Serving file: /README.txt'',
      Inherited ''GET'' (resolve [''opt'', ''app''] D) ''/README.txt'',
      Inherited ''HEAD'' (resolve [''opt'', ''app''] D) ''/missing'',
      Close,
      Stdout (CHR 0x0A # ''Server stopped.'')]"
proof -
  let ?w = "sample_world [''9090''] port_free sample_arrivals"
  assume d: "D = ''/srv'' \<or> D = ''..''"
  have "main_with D ?w = run_server ?w D 9090 D (initial ?w)"
    by (simp add: main_with_eq parse_port_9090)
  then show ?thesis
    by (simp add: run_server_def TCPServer_def os_chdir_def emit_def Let_def
        sample_world_def port_free_def sample_arrivals_def handle_request_eq request_effects_def
        except_clauses_def int_str_9090 initial_def)
qed

lemma resolve_srv: "resolve [''opt'', ''app''] ''/srv'' = [''srv'']"
  by (simp add: resolve_def is_absolute_def walk_def)

lemma resolve_up: "resolve [''opt'', ''app''] ''..'' = [''opt'']"
  by (simp add: resolve_def is_absolute_def walk_def)

section \<open>The claims of the specification\<close>

subsection \<open>C1: the working directory\<close>

text \<open>
  Claim C1 says that files are served from the script's own directory regardless of
  the value of \<open>DEFAULT_DIRECTORY\<close>. The script hands that value to the handler as
  its directory, so the claim fails for other values: in the run \<open>setup.py 9090\<close>
  of the script in \<open>/opt/app\<close>, with \<open>/srv\<close> for \<open>DEFAULT_DIRECTORY\<close> the request for
  \<open>/README.txt\<close> is served from \<open>/srv\<close>, and with \<open>..\<close> from \<open>/opt\<close>, although the
  working directory has been changed to \<open>/opt/app\<close> in both runs.
\<close>

theorem other_default_directory_is_served:
  "script_dir (sample_world [''9090''] port_free sample_arrivals) = [''opt'', ''app'']
   \<and> Chdir [''opt'', ''app'']
        \<in> set (trace (fst (main_with ''/srv'' (sample_world [''9090''] port_free sample_arrivals))))
   \<and> Inherited ''GET'' [''srv''] ''/README.txt''
        \<in> set (trace (fst (main_with ''/srv'' (sample_world [''9090''] port_free sample_arrivals))))
   \<and> Inherited ''GET'' [''opt'', ''app''] ''/README.txt''
        \<notin> set (trace (fst (main_with ''/srv'' (sample_world [''9090''] port_free sample_arrivals))))
   \<and> Inherited ''GET'' [''opt''] ''/README.txt''
        \<in> set (trace (fst (main_with ''..'' (sample_world [''9090''] port_free sample_arrivals))))"
  by (simp add: sample_other_directory resolve_srv resolve_up sample_fields)

text \<open>
  Claim C1, amended. Whatever port and \<open>directory\<close> argument \<open>run_server\<close> is called
  with, whatever the handler's directory is and whatever working directory the caller
  started the process in, the first thing \<open>run_server\<close> does is change the working
  directory to the script's directory; the construction of the TCP server comes next,
  and nothing afterwards changes the directory or binds again. Every request is served
  from the value of \<open>DEFAULT_DIRECTORY\<close> resolved against the script's directory, and
  the whole run, its effects and its outcome, is independent of the caller's directory.
  For the value \<open>.\<close> that the script has, the directory served is the script's own.
\<close>

theorem served_from_resolved_directory:
  "(\<exists>rest. trace (fst (run_server w D port directory s)) =
             trace s @ [Chdir (script_dir w), Bind '''' port] @ rest
           \<and> (\<forall>d. Chdir d \<notin> set rest) \<and> (\<forall>h q. Bind h q \<notin> set rest)
           \<and> (\<forall>m root p. Inherited m root p \<in> set rest \<longrightarrow> root = resolve (script_dir w) D))
   \<and> cwd (fst (run_server w D port directory s)) = script_dir w
   \<and> (\<forall>m root p. Inherited m root p \<in> set (trace (fst (main_with D w)))
         \<longrightarrow> root = resolve (script_dir w) D)
   \<and> main_with D (w\<lparr>caller_cwd := c\<rparr>) = main_with D w
   \<and> main w = main_with DEFAULT_DIRECTORY w
   \<and> resolve (script_dir w) DEFAULT_DIRECTORY = script_dir w
   \<and> (\<forall>m root p. Inherited m root p \<in> set (trace (fst (main w))) \<longrightarrow> root = script_dir w)
   \<and> main (w\<lparr>caller_cwd := c\<rparr>) = main w"
proof -
  obtain rest where
    t: "trace (fst (run_server w D port directory s)) =
          trace s @ [Chdir (script_dir w), Bind '''' port] @ rest"
    and h: "\<forall>y \<in> set rest. harmless (resolve (script_dir w) D) y"
    using run_server_shape [where w = w and D = D and port = port
        and dir = directory and s = s] by auto
  from h have 1: "\<forall>d. Chdir d \<notin> set rest"
    using harmless_not_Chdir by blast
  from h have 2: "\<forall>h q. Bind h q \<notin> set rest"
    using harmless_not_Bind by blast
  from h have 3: "\<forall>m root p. Inherited m root p \<in> set rest \<longrightarrow> root = resolve (script_dir w) D"
    using harmless_Inherited by blast
  from t 1 2 3 have a:
    "\<exists>rest. trace (fst (run_server w D port directory s)) =
             trace s @ [Chdir (script_dir w), Bind '''' port] @ rest
           \<and> (\<forall>d. Chdir d \<notin> set rest) \<and> (\<forall>h q. Bind h q \<notin> set rest)
           \<and> (\<forall>m root p. Inherited m root p \<in> set rest \<longrightarrow> root = resolve (script_dir w) D)"
    by blast
  have b: "cwd (fst (run_server w D port directory s)) = script_dir w"
    by (rule run_server_cwd)
  have c: "\<forall>m root p. Inherited m root p \<in> set (trace (fst (main_with D w)))
         \<longrightarrow> root = resolve (script_dir w) D"
    using main_with_roots by blast
  have d: "main_with D (w\<lparr>caller_cwd := c\<rparr>) = main_with D w"
    by (rule main_with_ignores_caller_cwd)
  have e: "main w = main_with DEFAULT_DIRECTORY w"
    by (rule main_is_main_with)
  have f: "resolve (script_dir w) DEFAULT_DIRECTORY = script_dir w"
    by (simp add: DEFAULT_DIRECTORY_def resolve_dot)
  have g: "\<forall>m root p. Inherited m root p \<in> set (trace (fst (main w))) \<longrightarrow> root = script_dir w"
    using main_with_roots [where D = DEFAULT_DIRECTORY and w = w] e f by auto
  have i: "main (w\<lparr>caller_cwd := c\<rparr>) = main w"
    by (rule main_ignores_caller_cwd)
  from a b c d e f g i show ?thesis
    by (intro conjI)
qed

text \<open>
  The amended C1 on the run \<open>setup.py 9090\<close> started from \<open>/home/user\<close>: the request
  for \<open>/README.txt\<close> is served from \<open>/opt/app\<close>, and starting in \<open>/tmp\<close> instead
  changes nothing.
\<close>

theorem served_from_resolved_directory_witness:
  "Inherited ''GET'' [''opt'', ''app''] ''/README.txt''
     \<in> set (trace (fst (main (sample_world [''9090''] port_free sample_arrivals))))
   \<and> script_dir (sample_world [''9090''] port_free sample_arrivals) = [''opt'', ''app'']
   \<and> caller_cwd (sample_world [''9090''] port_free sample_arrivals) = [''home'', ''user'']
   \<and> main ((sample_world [''9090''] port_free sample_arrivals)\<lparr>caller_cwd := [''tmp'']\<rparr>) =
       main (sample_world [''9090''] port_free sample_arrivals)"
proof -
  let ?w = "sample_world [''9090''] port_free sample_arrivals"
  have a: "Inherited ''GET'' [''opt'', ''app''] ''/README.txt'' \<in> set (trace (fst (main ?w)))"
    by (simp add: sample_9090)
  have b: "script_dir ?w = [''opt'', ''app'']" and c: "caller_cwd ?w = [''home'', ''user'']"
    by (simp_all add: sample_world_def)
  have "(\<forall>m root p. Inherited m root p \<in> set (trace (fst (main ?w))) \<longrightarrow> root = script_dir ?w)
        \<and> main (?w\<lparr>caller_cwd := [''tmp'']\<rparr>) = main ?w"
    using served_from_resolved_directory [where w = ?w and c = "[''tmp'']"] by blast
  with a b c show ?thesis by blast
qed

subsection \<open>C4: the fallback to the default port\<close>

text \<open>
  Claim C4 says that an absent first argument, like one that is no integer, makes the
  server fall back to port 8000 and emit a warning to the error stream. Without an
  argument the script does use port 8000, but it prints no warning: the run
  \<open>setup.py\<close> binds port 8000 and its trace holds no such line.
\<close>

theorem missing_argument_gives_no_warning:
  "length (argv (sample_world [] port_free sample_arrivals)) \<le> 1
   \<and> Bind '''' 8000 \<in> set (trace (fst (main (sample_world [] port_free sample_arrivals))))
   \<and> Stderr ''Invalid port number provided. Using default port 8000.''
        \<notin> set (trace (fst (main (sample_world [] port_free sample_arrivals))))"
  by (simp add: sample_no_argument) (simp add: sample_world_def)

text \<open>
  Claim C4, amended. Without a first argument the script settles on port 8000 and
  prints nothing about it; with a first argument that \<open>int\<close> rejects it settles on port
  8000 and prints the warning to the error stream. In both cases startup goes on: the
  working directory is changed and the server is constructed on port 8000.
\<close>

theorem default_port_fallback:
  "(length (argv w) \<le> 1 \<longrightarrow>
      parse_port w s = (8000, s)
      \<and> (\<exists>rest. trace (fst (main w)) = [Chdir (script_dir w), Bind '''' 8000] @ rest))
   \<and> (1 < length (argv w) \<and> int_builtin w (argv w ! 1) = None \<longrightarrow>
      parse_port w s =
        (8000, emit (Stderr ''Invalid port number provided. Using default port 8000.'') s)
      \<and> (\<exists>rest. trace (fst (main w)) =
            [Stderr ''Invalid port number provided. Using default port 8000.'',
             Chdir (script_dir w), Bind '''' 8000] @ rest))"
proof (intro conjI impI)
  assume a: "length (argv w) \<le> 1"
  then show p: "parse_port w s = (8000, s)" for s
    by (simp add: parse_port_def DEFAULT_PORT_def)
  obtain rest where
    "trace (fst (run_server w ''.'' 8000 ''.'' (initial w))) =
       trace (initial w) @ [Chdir (script_dir w), Bind '''' 8000] @ rest"
    using run_server_shape [where w = w and D = "''.''" and dir = "''.''" and port = 8000
        and s = "initial w"] by auto
  then show "\<exists>rest. trace (fst (main w)) = [Chdir (script_dir w), Bind '''' 8000] @ rest"
    by (simp add: main_eq p initial_def)
next
  let ?warn = "Stderr ''Invalid port number provided. Using default port 8000.''"
  assume a: "1 < length (argv w) \<and> int_builtin w (argv w ! 1) = None"
  then show p: "parse_port w s = (8000, emit ?warn s)" for s
    by (simp add: parse_port_def DEFAULT_PORT_def)
  obtain rest where
    "trace (fst (run_server w ''.'' 8000 ''.'' (emit ?warn (initial w)))) =
       trace (emit ?warn (initial w)) @ [Chdir (script_dir w), Bind '''' 8000] @ rest"
    using run_server_shape [where w = w and D = "''.''" and dir = "''.''" and port = 8000
        and s = "emit ?warn (initial w)"] by auto
  then show "\<exists>rest. trace (fst (main w)) = [?warn, Chdir (script_dir w), Bind '''' 8000] @ rest"
    by (simp add: main_eq p initial_def emit_def)
qed

text \<open>
  The amended C4 on the runs \<open>setup.py abc\<close> and \<open>setup.py\<close>.
\<close>

theorem default_port_fallback_witness:
  "1 < length (argv (sample_world [''abc''] port_free sample_arrivals))
   \<and> int_builtin (sample_world [''abc''] port_free sample_arrivals)
        (argv (sample_world [''abc''] port_free sample_arrivals) ! 1) = None
   \<and> length (argv (sample_world [] port_free sample_arrivals)) \<le> 1
   \<and> (\<exists>rest. trace (fst (main (sample_world [''abc''] port_free sample_arrivals))) =
         [Stderr ''Invalid port number provided. Using default port 8000.'',
          Chdir [''opt'', ''app''], Bind '''' 8000] @ rest)
   \<and> (\<exists>rest. trace (fst (main (sample_world [] port_free sample_arrivals))) =
         [Chdir [''opt'', ''app''], Bind '''' 8000] @ rest)"
proof -
  let ?bad = "sample_world [''abc''] port_free sample_arrivals"
  let ?none = "sample_world [] port_free sample_arrivals"
  have h1: "1 < length (argv ?bad) \<and> int_builtin ?bad (argv ?bad ! 1) = None"
    by (simp add: sample_world_def ascii_int_abc)
  have h2: "length (argv ?none) \<le> 1"
    by (simp add: sample_world_def)
  have d: "script_dir ?bad = [''opt'', ''app'']" "script_dir ?none = [''opt'', ''app'']"
    by (simp_all add: sample_world_def)
  from h1 default_port_fallback [where w = ?bad]
  have 1: "\<exists>rest. trace (fst (main ?bad)) =
         [Stderr ''Invalid port number provided. Using default port 8000.'',
          Chdir (script_dir ?bad), Bind '''' 8000] @ rest"
    by blast
  from h2 default_port_fallback [where w = ?none]
  have 2: "\<exists>rest. trace (fst (main ?none)) = [Chdir (script_dir ?none), Bind '''' 8000] @ rest"
    by blast
  from h1 h2 1 2 show ?thesis
    by (simp only: d)
qed

subsection \<open>C5: a valid port is the port of the listener\<close>

text \<open>
  Claim C5. When the first argument parses as an integer \<open>p\<close> between 0 and 65535, the
  script constructs its one TCP server on the address \<open>("", p)\<close>, the empty host
  standing for all interfaces; the socket layer passes the request on to the operating
  system, and when the operating system grants it the server announces itself on port
  \<open>p\<close>.
\<close>

theorem valid_port_is_bound:
  assumes "1 < length (argv w)"
    and "int_builtin w (argv w ! 1) = Some p"
    and "0 \<le> p" and "p \<le> 65535"
  shows "(\<exists>rest. trace (fst (main w)) = [Chdir (script_dir w), Bind '''' p] @ rest
            \<and> (\<forall>h q. Bind h q \<notin> set rest))
         \<and> TCPServer w '''' p s =
             (emit (Bind '''' p) s,
              case os_bind w p of None \<Rightarrow> None | Some msg \<Rightarrow> Some (OSError msg))
         \<and> (os_bind w p = None \<longrightarrow>
              (\<exists>rest. trace (fst (main w)) =
                 [Chdir (script_dir w), Bind '''' p,
                  Stdout (''Serving files from directory '' @ [CHR 0x27] @ ''.'' @ [CHR 0x27]),
                  Stdout (''Server started at http://localhost:'' @ int_str p),
                  Stdout ''Press Ctrl+C to stop the server.''] @ rest))"
proof (intro conjI impI)
  from assms(1,2) have p: "parse_port w s = (p, s)" for s
    by (simp add: parse_port_def)
  obtain rest where
    t: "trace (fst (run_server w ''.'' p ''.'' (initial w))) =
       trace (initial w) @ [Chdir (script_dir w), Bind '''' p] @ rest"
    and h: "\<forall>y \<in> set rest. harmless (resolve (script_dir w) ''.'') y"
    using run_server_shape [where w = w and D = "''.''" and dir = "''.''" and port = p
        and s = "initial w"] by auto
  from h have "\<forall>h q. Bind h q \<notin> set rest"
    using harmless_not_Bind by blast
  with t show "\<exists>rest. trace (fst (main w)) = [Chdir (script_dir w), Bind '''' p] @ rest
            \<and> (\<forall>h q. Bind h q \<notin> set rest)"
    by (simp add: main_eq p initial_def)
  from assms(3,4) show "TCPServer w '''' p s =
             (emit (Bind '''' p) s,
              case os_bind w p of None \<Rightarrow> None | Some msg \<Rightarrow> Some (OSError msg))"
    by (simp add: TCPServer_def Let_def split: option.splits)
  assume free: "os_bind w p = None"
  obtain rest' where
    "trace (fst (run_server w ''.'' p ''.'' (initial w))) =
       trace (initial w) @
       [Chdir (script_dir w), Bind '''' p,
        Stdout (''Serving files from directory '' @ [CHR 0x27] @ ''.'' @ [CHR 0x27]),
        Stdout (''Server started at http://localhost:'' @ int_str p),
        Stdout ''Press Ctrl+C to stop the server.''] @ rest'"
    using run_server_banner [OF assms(3,4) free] by blast
  then show "\<exists>rest. trace (fst (main w)) =
                 [Chdir (script_dir w), Bind '''' p,
                  Stdout (''Serving files from directory '' @ [CHR 0x27] @ ''.'' @ [CHR 0x27]),
                  Stdout (''Server started at http://localhost:'' @ int_str p),
                  Stdout ''Press Ctrl+C to stop the server.''] @ rest"
    by (simp add: main_eq p initial_def)
qed

text \<open>
  C5 on the run \<open>setup.py 9090\<close> with the port free.
\<close>

theorem valid_port_is_bound_witness:
  "1 < length (argv (sample_world [''9090''] port_free sample_arrivals))
   \<and> int_builtin (sample_world [''9090''] port_free sample_arrivals)
        (argv (sample_world [''9090''] port_free sample_arrivals) ! 1) = Some 9090
   \<and> os_bind (sample_world [''9090''] port_free sample_arrivals) 9090 = None
   \<and> (\<exists>rest. trace (fst (main (sample_world [''9090''] port_free sample_arrivals))) =
         [Chdir [''opt'', ''app''], Bind '''' 9090,
          Stdout (''Serving files from directory '' @ [CHR 0x27] @ ''.'' @ [CHR 0x27]),
          Stdout ''Server started at http://localhost:9090'',
          Stdout ''Press Ctrl+C to stop the server.''] @ rest)"
proof -
  let ?w = "sample_world [''9090''] port_free sample_arrivals"
  have h1: "1 < length (argv ?w)"
    by (simp add: sample_fields)
  have h2: "int_builtin ?w (argv ?w ! 1) = Some 9090"
    by (simp add: sample_fields ascii_int_9090)
  have h3: "(0::int) \<le> 9090" and h4: "(9090::int) \<le> 65535"
    by simp_all
  have free: "os_bind ?w 9090 = None"
    by (simp add: sample_fields port_free_def)
  from valid_port_is_bound [OF h1 h2 h3 h4] free
  have "\<exists>rest. trace (fst (main ?w)) =
         [Chdir (script_dir ?w), Bind '''' 9090,
          Stdout (''Serving files from directory '' @ [CHR 0x27] @ ''.'' @ [CHR 0x27]),
          Stdout (''Server started at http://localhost:'' @ int_str 9090),
          Stdout ''Press Ctrl+C to stop the server.''] @ rest"
    by blast
  with h1 h2 free show ?thesis
    by (simp add: sample_fields int_str_9090)
qed

subsection \<open>C6: the line printed for every GET request\<close>

text \<open>
  Claim C6. \<open>do_GET\<close> performs exactly one \<open>print\<close>, of \<open>Serving file: \<close> followed by
  the request path, and performs it before it calls the inherited handler; the print
  does not depend on anything the inherited handler finds. Every GET request is
  dispatched to \<open>do_GET\<close>, so a serve loop that receives the GET requests for the paths
  \<open>ps\<close> prints one such line per request, each directly before the inherited handler
  is called for that request.
\<close>

theorem every_GET_is_announced:
  "trace (do_GET D p s) =
     trace s @ [Stdout (''Serving file: '' @ p), Inherited ''GET'' (resolve (cwd s) D) p]
   \<and> handle_request D ''GET'' p s = do_GET D p s
   \<and> trace (fst (serve_forever D (map (Request ''GET'') ps) s)) =
       trace s @ concat (map (\<lambda>p. [Stdout (''Serving file: '' @ p),
                                    Inherited ''GET'' (resolve (cwd s) D) p]) ps)"
  by (simp add: serve_forever_GETs)
    (simp add: do_GET_def handle_request_def handler_root_def emit_def Let_def)

text \<open>
  C6 on two requests, one of them for a path that does not exist.
\<close>

theorem every_GET_is_announced_witness:
  "trace (fst (serve_forever ''.'' (map (Request ''GET'') [''/README.txt'', ''/missing''])
                 \<lparr>cwd = [''opt'', ''app''], trace = []\<rparr>)) =
     [Stdout ''Serving file: /README.txt'', Inherited ''GET'' [''opt'', ''app''] ''/README.txt'',
      Stdout ''Serving file: /missing'', Inherited ''GET'' [''opt'', ''app''] ''/missing'']"
proof -
  let ?s = "\<lparr>cwd = [''opt'', ''app''], trace = []\<rparr>"
  let ?ps = "[''/README.txt'', ''/missing'']"
  have "trace (fst (serve_forever ''.'' (map (Request ''GET'') ?ps) ?s)) =
       trace ?s @ concat (map (\<lambda>p. [Stdout (''Serving file: '' @ p),
                                    Inherited ''GET'' (resolve (cwd ?s) ''.'') p]) ?ps)"
    using every_GET_is_announced [where D = "''.''" and ps = ?ps and s = ?s
        and p = "''/README.txt''"]
    by (rule conjunct2 [THEN conjunct2])
  also have "\<dots> = [Stdout ''Serving file: /README.txt'',
      Inherited ''GET'' [''opt'', ''app''] ''/README.txt'',
      Stdout ''Serving file: /missing'', Inherited ''GET'' [''opt'', ''app''] ''/missing'']"
    by (simp add: resolve_dot)
  finally show ?thesis .
qed

subsection \<open>C7: the interrupt\<close>

text \<open>
  Claim C7. When the server is listening and, after any number of requests, an
  interrupt raises \<open>KeyboardInterrupt\<close> in the serve loop, the loop is left (what
  arrives later has no effect on the run), the server is closed, the last thing printed
  is the line \<open>Server stopped.\<close> on standard output, no exception leaves \<open>run_server\<close>
  and the process ends with exit code 0.
\<close>

theorem interrupt_stops_the_server:
  assumes "fst (parse_port w (initial w)) = port"
    and "0 \<le> port" and "port \<le> 65535"
    and "os_bind w port = None"
    and "arrivals w = map (\<lambda>(m, p). Request m p) reqs @ Raises KeyboardInterrupt # later"
  shows "snd (main w) = Returned
         \<and> exit_code (snd (main w)) = Some 0
         \<and> (\<exists>before. trace (fst (main w)) =
               before @ [Close, Stdout (CHR 0x0A # ''Server stopped.'')])
         \<and> main (w\<lparr>arrivals := map (\<lambda>(m, p). Request m p) reqs @ [Raises KeyboardInterrupt]\<rparr>)
             = main w"
proof -
  let ?s0 = "snd (parse_port w (initial w))"
  let ?s5 = "?s0\<lparr>cwd := script_dir w,
                  trace := trace ?s0 @
                    [Chdir (script_dir w), Bind [] port,
                     Stdout (''Serving files from directory '' @ [CHR 0x27] @ ''.'' @ [CHR 0x27]),
                     Stdout (''Server started at http://localhost:'' @ int_str port),
                     Stdout ''Press Ctrl+C to stop the server.'']\<rparr>"
  let ?s6 = "foldl (\<lambda>s (m, p). handle_request ''.'' m p s) ?s5 reqs"
  let ?end = "(emit (Stdout (CHR 0x0A # ''Server stopped.'')) (emit Close ?s6), Returned)"
  let ?w' = "w\<lparr>arrivals := map (\<lambda>(m, p). Request m p) reqs @ [Raises KeyboardInterrupt]\<rparr>"
  have stop: "except_clauses port KeyboardInterrupt s =
                (emit (Stdout (CHR 0x0A # ''Server stopped.'')) s, Returned)" for s
    by (simp add: except_clauses_def)
  have "main w = run_server w ''.'' port ''.'' ?s0"
    using assms(1) by (simp add: main_eq)
  also have "\<dots> = ?end"
    using assms(2-4)
    by (simp add: run_server_listening assms(5) serve_forever_until stop)
  finally have m: "main w = ?end" .
  have "main ?w' = run_server ?w' ''.'' port ''.'' ?s0"
    using assms(1) by (simp add: main_eq parse_port_ignores_arrivals initial_def)
  also have "\<dots> = ?end"
    using assms(2-4)
      run_server_listening [where w = ?w' and port = port and D = "''.''" and dir = "''.''"
        and s = ?s0]
      serve_forever_until [where D = "''.''" and reqs = reqs and e = KeyboardInterrupt
        and later = "[]" and s = ?s5]
    by (simp add: stop)
  finally have m': "main ?w' = main w"
    using m by simp
  have "trace (fst (main w)) = trace ?s6 @ [Close, Stdout (CHR 0x0A # ''Server stopped.'')]"
    by (simp add: m emit_def)
  then have "\<exists>before. trace (fst (main w)) =
               before @ [Close, Stdout (CHR 0x0A # ''Server stopped.'')]"
    by blast
  with m m' show ?thesis
    by (simp add: exit_code_def)
qed

text \<open>
  C7 on the run \<open>setup.py 9090\<close> that is interrupted after two requests.
\<close>

theorem interrupt_stops_the_server_witness:
  "snd (main (sample_world [''9090''] port_free sample_arrivals)) = Returned
   \<and> exit_code (snd (main (sample_world [''9090''] port_free sample_arrivals))) = Some 0
   \<and> (\<exists>before. trace (fst (main (sample_world [''9090''] port_free sample_arrivals))) =
         before @ [Close, Stdout (CHR 0x0A # ''Server stopped.'')])"
proof -
  let ?w = "sample_world [''9090''] port_free sample_arrivals"
  have h1: "fst (parse_port ?w (initial ?w)) = 9090"
    by (simp add: parse_port_9090)
  have h2: "(0::int) \<le> 9090" and h3: "(9090::int) \<le> 65535"
    by simp_all
  have h4: "os_bind ?w 9090 = None"
    by (simp add: sample_fields port_free_def)
  have h5: "arrivals ?w =
      map (\<lambda>(m, p). Request m p) [(''GET'', ''/README.txt''), (''HEAD'', ''/missing'')]
      @ Raises KeyboardInterrupt # [Request ''GET'' ''/late'']"
    by (simp add: sample_fields sample_arrivals_def)
  from interrupt_stops_the_server [OF h1 h2 h3 h4 h5] show ?thesis
    by blast
qed

subsection \<open>C8: a failing bind\<close>

text \<open>
  Claim C8. When the operating system refuses the bind with an \<open>OSError\<close>, the script
  prints two lines to the error stream, the message naming the port and the details of
  the error, serves nothing, and \<open>run_server\<close> returns: no exception is left unhandled
  and the process ends.
\<close>

theorem bind_failure_is_reported:
  assumes "fst (parse_port w (initial w)) = port"
    and "0 \<le> port" and "port \<le> 65535"
    and "os_bind w port = Some msg"
  shows "main w =
           (\<lparr>cwd = script_dir w,
             trace = trace (snd (parse_port w (initial w))) @
               [Chdir (script_dir w), Bind '''' port,
                Stderr (''Error: Could not start the server on port '' @ int_str port
                        @ ''. The port might be in use.''),
                Stderr (''Details: '' @ msg)]\<rparr>,
            Returned)
         \<and> exit_code (snd (main w)) = Some 0"
proof -
  have "main w = run_server w ''.'' port ''.'' (snd (parse_port w (initial w)))"
    using assms(1) by (simp add: main_eq)
  with assms(2-4) show ?thesis
    by (simp add: run_server_bind_error exit_code_def)
qed

text \<open>
  C8 on the run \<open>setup.py 9090\<close> with the port in use.
\<close>

theorem bind_failure_is_reported_witness:
  "main (sample_world [''9090''] port_in_use sample_arrivals) =
     (\<lparr>cwd = [''opt'', ''app''],
       trace =
         [Chdir [''opt'', ''app''], Bind '''' 9090,
          Stderr ''Error: Could not start the server on port 9090. The port might be in use.'',
          Stderr ''Details: [Errno 98] Address already in use'']\<rparr>,
      Returned)"
proof -
  let ?w = "sample_world [''9090''] port_in_use sample_arrivals"
  have h1: "fst (parse_port ?w (initial ?w)) = 9090"
    by (simp add: parse_port_9090)
  have h2: "(0::int) \<le> 9090" and h3: "(9090::int) \<le> 65535"
    by simp_all
  have h4: "os_bind ?w 9090 = Some ''[Errno 98] Address already in use''"
    by (simp add: sample_fields port_in_use_def)
  from bind_failure_is_reported [OF h1 h2 h3 h4] show ?thesis
    by (simp add: parse_port_9090 sample_fields int_str_9090 initial_def)
qed

subsection \<open>C9: the lines printed on startup\<close>

text \<open>
  Claim C9. Once the server is constructed, \<open>run_server\<close> prints three lines to
  standard output before it enters the serve loop: the directory it was given, the URL
  with the port, and the instruction to stop with Ctrl+C. In every run of the script in
  which a request is handled at all, these three lines come before the first request.
\<close>

theorem banner_before_any_request:
  "(0 \<le> port \<and> port \<le> 65535 \<and> os_bind w port = None \<longrightarrow>
      (\<exists>rest. trace (fst (run_server w D port directory s)) =
         trace s @
         [Chdir (script_dir w), Bind '''' port,
          Stdout (''Serving files from directory '' @ [CHR 0x27] @ directory @ [CHR 0x27]),
          Stdout (''Server started at http://localhost:'' @ int_str port),
          Stdout ''Press Ctrl+C to stop the server.''] @ rest))
   \<and> (Inherited m root p \<in> set (trace (fst (main w))) \<longrightarrow>
      (\<exists>before rest.
         trace (fst (main w)) =
           before @
           [Stdout (''Serving files from directory '' @ [CHR 0x27] @ ''.'' @ [CHR 0x27]),
            Stdout (''Server started at http://localhost:''
                    @ int_str (fst (parse_port w (initial w)))),
            Stdout ''Press Ctrl+C to stop the server.''] @ rest
         \<and> (\<forall>m root p. Inherited m root p \<notin> set before)))"
proof (intro conjI impI)
  assume "0 \<le> port \<and> port \<le> 65535 \<and> os_bind w port = None"
  then show "\<exists>rest. trace (fst (run_server w D port directory s)) =
         trace s @
         [Chdir (script_dir w), Bind '''' port,
          Stdout (''Serving files from directory '' @ [CHR 0x27] @ directory @ [CHR 0x27]),
          Stdout (''Server started at http://localhost:'' @ int_str port),
          Stdout ''Press Ctrl+C to stop the server.''] @ rest"
    using run_server_banner [where port = port and w = w and D = D and dir = directory and s = s]
    by simp
next
  let ?port = "fst (parse_port w (initial w))"
  let ?s0 = "snd (parse_port w (initial w))"
  let ?banner = "[Stdout (''Serving files from directory '' @ [CHR 0x27] @ ''.'' @ [CHR 0x27]),
            Stdout (''Server started at http://localhost:'' @ int_str ?port),
            Stdout ''Press Ctrl+C to stop the server.'']"
  assume "Inherited m root p \<in> set (trace (fst (main w)))"
  then have "0 \<le> ?port" and "?port \<le> 65535" and "os_bind w ?port = None"
    using main_serves_only_when_listening by blast+
  then obtain rest where
    "trace (fst (run_server w ''.'' ?port ''.'' ?s0)) =
       trace ?s0 @ [Chdir (script_dir w), Bind '''' ?port,
          Stdout (''Serving files from directory '' @ [CHR 0x27] @ ''.'' @ [CHR 0x27]),
          Stdout (''Server started at http://localhost:'' @ int_str ?port),
          Stdout ''Press Ctrl+C to stop the server.''] @ rest"
    using run_server_banner [where port = ?port and w = w and D = "''.''" and dir = "''.''"
        and s = ?s0] by auto
  then have t: "trace (fst (main w)) =
      (trace ?s0 @ [Chdir (script_dir w), Bind '''' ?port]) @ ?banner @ rest"
    by (simp add: main_eq)
  have "\<forall>m root p. Inherited m root p \<notin> set (trace ?s0 @ [Chdir (script_dir w), Bind '''' ?port])"
    using parse_port_trace [where w = w and s = "initial w"] by (auto simp: initial_def)
  with t show "\<exists>before rest. trace (fst (main w)) = before @ ?banner @ rest
         \<and> (\<forall>m root p. Inherited m root p \<notin> set before)"
    by blast
qed

text \<open>
  C9 on the run \<open>setup.py 9090\<close>, which serves \<open>/README.txt\<close>.
\<close>

theorem banner_before_any_request_witness:
  "Inherited ''GET'' [''opt'', ''app''] ''/README.txt''
     \<in> set (trace (fst (main (sample_world [''9090''] port_free sample_arrivals))))
   \<and> (\<exists>before rest.
         trace (fst (main (sample_world [''9090''] port_free sample_arrivals))) =
           before @
           [Stdout (''Serving files from directory '' @ [CHR 0x27] @ ''.'' @ [CHR 0x27]),
            Stdout ''Server started at http://localhost:9090'',
            Stdout ''Press Ctrl+C to stop the server.''] @ rest
         \<and> (\<forall>m root p. Inherited m root p \<notin> set before))"
proof -
  let ?w = "sample_world [''9090''] port_free sample_arrivals"
  have a: "Inherited ''GET'' [''opt'', ''app''] ''/README.txt'' \<in> set (trace (fst (main ?w)))"
    by (simp add: sample_9090)
  from a banner_before_any_request [where w = ?w and m = "''GET''" and root = "[''opt'', ''app'']"
      and p = "''/README.txt''"]
  have "\<exists>before rest.
         trace (fst (main ?w)) =
           before @
           [Stdout (''Serving files from directory '' @ [CHR 0x27] @ ''.'' @ [CHR 0x27]),
            Stdout (''Server started at http://localhost:''
                    @ int_str (fst (parse_port ?w (initial ?w)))),
            Stdout ''Press Ctrl+C to stop the server.''] @ rest
         \<and> (\<forall>m root p. Inherited m root p \<notin> set before)"
    by blast
  with a show ?thesis
    by (simp add: parse_port_9090 int_str_9090)
qed

subsection \<open>C10: an integer that is no port\<close>

text \<open>
  Claim C10. When the first argument parses as an integer below 0 or above 65535, the
  script does not fall back to port 8000: it constructs the TCP server with that
  number, the socket layer raises \<open>OverflowError\<close>, neither \<open>except\<close> clause of
  \<open>run_server\<close> catches it, nothing is printed, and the process ends with the
  exception unhandled.
\<close>

theorem out_of_range_port_is_unhandled:
  assumes "1 < length (argv w)"
    and "int_builtin w (argv w ! 1) = Some p"
    and "p < 0 \<or> 65535 < p"
  shows "main w =
           (\<lparr>cwd = script_dir w, trace = [Chdir (script_dir w), Bind '''' p]\<rparr>,
            Uncaught OverflowError)
         \<and> exit_code (snd (main w)) = Some 1"
proof -
  from assms(1,2) have "parse_port w s = (p, s)" for s
    by (simp add: parse_port_def)
  then have "main w = run_server w ''.'' p ''.'' (initial w)"
    by (simp add: main_eq)
  with assms(3) show ?thesis
    by (simp add: run_server_refused exit_code_def initial_def)
qed

text \<open>
  C10 on the run \<open>setup.py 70000\<close>.
\<close>

theorem out_of_range_port_is_unhandled_witness:
  "main (sample_world [''70000''] port_free sample_arrivals) =
     (\<lparr>cwd = [''opt'', ''app''], trace = [Chdir [''opt'', ''app''], Bind '''' 70000]\<rparr>,
      Uncaught OverflowError)
   \<and> exit_code (snd (main (sample_world [''70000''] port_free sample_arrivals))) = Some 1"
proof -
  let ?w = "sample_world [''70000''] port_free sample_arrivals"
  have h1: "1 < length (argv ?w)"
    by (simp add: sample_fields)
  have h2: "int_builtin ?w (argv ?w ! 1) = Some 70000"
    by (simp add: sample_fields ascii_int_70000)
  have h3: "(70000::int) < 0 \<or> 65535 < (70000::int)"
    by simp
  from out_of_range_port_is_unhandled [OF h1 h2 h3] show ?thesis
    by (simp add: sample_fields exit_code_def)
qed

end
